theory Spec2Isabelle
  imports Main "HOL-Library.Word" "HOL-Library.Sublist"
begin

unbundle bit_operations_syntax

section \<open>Remote process and runtime introspection (rpcclient, Darwin)\<close>

text \<open>
  A shallow embedding of \<^verbatim>\<open>rpcclient/darwin/processes.py\<close> and
  \<^verbatim>\<open>rpcclient/darwin/client.py\<close>. Python integers are \<open>int\<close>, byte strings are
  lists of 8-bit words, exceptions are values of the type \<open>error\<close> carried in the left
  summand of a sum. Every remote routine the code invokes through
  \<^verbatim>\<open>self._client.symbols\<close> is a field of the record \<open>remote\<close>: the target is
  a collaborator whose answers the code only consumes, so its answers are arguments of
  the model.
\<close>

subsection \<open>Exceptions\<close>

datatype error =
    BadReturnValueError
  | ArgumentError
  | KeyError
  | IndexError
  | AttributeError
  | UnicodeDecodeError
  | TypeError
  | OverflowError

type_synonym bytes = "8 word list"

subsection \<open>Objective-C object classifier (client.py)\<close>

text \<open>
  \<^verbatim>\<open>IsaMagic = namedtuple('IsaMagic', 'mask value')\<close>: a pair (mask, value).
\<close>

type_synonym IsaMagic = "int \<times> int"

definition ISA_MAGICS :: "IsaMagic list" where
  "ISA_MAGICS =
     [ \<comment> \<open>ARM64\<close>
       (0x000003f000000001, 0x000001a000000001),
       \<comment> \<open>X86_64\<close>
       (0x001f800000000001, 0x001d800000000001) ]"

definition OBJC_TAG_MASK :: int where
  "OBJC_TAG_MASK = push_bit 63 1"

text \<open>
  The loop \<^verbatim>\<open>for mask, value in ISA_MAGICS: if x & mask == value: return ...\<close>;
  the result tells whether the loop body returned.
\<close>

fun isa_magic_loop :: "IsaMagic list \<Rightarrow> int \<Rightarrow> bool" where
  "isa_magic_loop [] x = False"
| "isa_magic_loop ((msk, val) # magics) x =
     (if x AND msk = val then True else isa_magic_loop magics x)"

text \<open>
  \<^verbatim>\<open>is_objc_type(symbol)\<close>. The argument \<open>deref\<close> is the 8-byte read
  \<^verbatim>\<open>symbol[0]\<close> under \<^verbatim>\<open>change_item_size(8)\<close>; \<open>None\<close> stands for the
  \<^verbatim>\<open>RpcClientException\<close> the \<^verbatim>\<open>try\<close> block catches.
\<close>

definition is_objc_type :: "(int \<Rightarrow> int option) \<Rightarrow> int \<Rightarrow> bool" where
  "is_objc_type deref symbol =
     (if symbol AND OBJC_TAG_MASK = OBJC_TAG_MASK then True
      else if isa_magic_loop ISA_MAGICS symbol then False
      else (case deref symbol of
              None \<Rightarrow> False
            | Some isa \<Rightarrow> (if isa_magic_loop ISA_MAGICS isa then True else False)))"

subsection \<open>The remote target (processes.py)\<close>

text \<open>
  Modelled from the spec: the module \<^verbatim>\<open>rpcclient.darwin.structs\<close> with the constants
  \<^verbatim>\<open>PROX_FDTYPE_*\<close>, the enumerations \<^verbatim>\<open>so_kind_t\<close> and \<^verbatim>\<open>so_family_t\<close> and
  the \<^verbatim>\<open>PROC_PIDFD*\<close> request flavors is not among the sources. The spec has the
  descriptor type tags mutually exclusive, so each is a datatype whose named
  constructors are the members the code compares against; every other number a target
  can send is the last constructor.
\<close>

datatype fdtype =
    PROX_FDTYPE_VNODE
  | PROX_FDTYPE_SOCKET
  | PROX_FDTYPE_PIPE
  | PROX_FDTYPE_OTHER int

datatype so_kind_t =
    SOCKINFO_TCP
  | SOCKINFO_IN
  | SOCKINFO_UN
  | SOCKINFO_OTHER int

datatype so_family_t =
    AF_INET
  | AF_INET6
  | AF_OTHER int

datatype flavor =
    PROC_PIDFDVNODEPATHINFO
  | PROC_PIDFDSOCKETINFO
  | PROC_PIDFDPIPEINFO

text \<open>\<^verbatim>\<open>errno.EBADF\<close> of the Python standard library.\<close>

definition EBADF :: int where
  "EBADF = 9"

text \<open>One entry of the descriptor list (\<^verbatim>\<open>proc_fdinfo\<close>).\<close>

record proc_fdinfo =
  proc_fd :: int
  proc_fdtype :: fdtype

text \<open>
  The fields of the parsed detail structures that the code reads. \<open>in_sockinfo\<close> holds
  \<^verbatim>\<open>insi_laddr.ina_46.i46a_addr4\<close>, \<^verbatim>\<open>insi_lport\<close>,
  \<^verbatim>\<open>insi_faddr.ina_46.i46a_addr4\<close> and \<^verbatim>\<open>insi_fport\<close>; \<open>socket_info\<close> is
  \<^verbatim>\<open>psi\<close>, whose \<^verbatim>\<open>soi_proto\<close> is a union, read as
  \<^verbatim>\<open>pri_tcp.tcpsi_ini\<close>, as \<^verbatim>\<open>pri_in\<close> or as
  \<^verbatim>\<open>pri_un.unsi_addr.ua_sun.sun_path\<close>.
\<close>

record in_sockinfo =
  insi_laddr :: string
  insi_lport :: int
  insi_faddr :: string
  insi_fport :: int

record socket_info =
  soi_kind :: so_kind_t
  soi_family :: so_family_t
  pri_tcp_tcpsi_ini :: in_sockinfo
  pri_in :: in_sockinfo
  pri_un_sun_path :: string

text \<open>
  The scratch buffer \<^verbatim>\<open>vi_buf\<close> after a detail query, as each of the three parsers
  reads it: \<^verbatim>\<open>vnode_fdinfowithpath\<close> (of which \<^verbatim>\<open>pvip.vip_path\<close> is used),
  \<^verbatim>\<open>socket_fdinfo\<close> (\<^verbatim>\<open>psi\<close>) and \<^verbatim>\<open>pipe_info\<close> (no field is used).
\<close>

record vi_buf =
  pvip_vip_path :: string
  psi :: socket_info

text \<open>
  The answer to \<^verbatim>\<open>proc_pidfdinfo(pid, fd, flavor, vi_buf, vi_size)\<close>: the returned
  value \<open>vs\<close>, the value of \<^verbatim>\<open>self._client.errno\<close> after the call, and the buffer.
\<close>

record fdinfo_reply =
  vs :: int
  errno :: int
  buf :: vi_buf

text \<open>
  The answer to \<^verbatim>\<open>vm_read(task, address, size, p_buf, p_size)\<close>: the kernel return
  code, the pointer stored at \<^verbatim>\<open>p_buf\<close> and the length stored at \<^verbatim>\<open>p_size\<close>.
\<close>

record vm_read_reply =
  kr :: int
  p_buf :: int
  p_size :: int

text \<open>
  The target, as the code sees it through the calls it makes:
  \<^item> \<open>task_for_pid pid\<close>: the returned status and the port stored at \<^verbatim>\<open>p_task\<close>;
  \<^item> \<open>vm_read task address size\<close>;
  \<^item> \<open>symbol_peek ptr size\<close>: the bytes \<^verbatim>\<open>Symbol.peek(size)\<close> reads at a pointer;
  \<^item> \<open>proc_listallpids size\<close>: the returned count and the pid buffer by index, for a
    buffer of \<open>size\<close> bytes (0 for the null buffer of the first call);
  \<^item> \<open>pid_t_sizeof\<close>: \<^verbatim>\<open>pid_t.sizeof()\<close>;
  \<^item> \<open>proc_pidinfo_listfds pid size\<close>: \<^verbatim>\<open>proc_pidinfo(pid, PROC_PIDLISTFDS, ...)\<close>
    for a buffer of \<open>size\<close> bytes: the returned byte count and the entries that
    \<^verbatim>\<open>Array(size // proc_fdinfo.sizeof(), proc_fdinfo)\<close> parses from the buffer;
  \<^item> \<open>proc_pidfdinfo pid fd flavor\<close>;
  \<^item> \<open>proc_pidpath pid\<close>: the returned length and the decoded path of that length;
  \<^item> \<open>proc_pidinfo_taskallinfo pid\<close>: the returned value of
    \<^verbatim>\<open>proc_pidinfo(pid, PROC_PIDTASKALLINFO, ...)\<close> and \<^verbatim>\<open>pbsd.pbi_name\<close>.
\<close>

record remote =
  task_for_pid :: "int \<Rightarrow> int \<times> int"
  vm_read :: "int \<Rightarrow> int \<Rightarrow> nat \<Rightarrow> vm_read_reply"
  symbol_peek :: "int \<Rightarrow> nat \<Rightarrow> bytes"
  proc_listallpids :: "int \<Rightarrow> int \<times> (nat \<Rightarrow> int)"
  pid_t_sizeof :: int
  proc_pidinfo_listfds :: "int \<Rightarrow> int \<Rightarrow> int \<times> proc_fdinfo list"
  proc_pidfdinfo :: "int \<Rightarrow> int \<Rightarrow> flavor \<Rightarrow> fdinfo_reply"
  proc_pidpath :: "int \<Rightarrow> int \<times> string"
  proc_pidinfo_taskallinfo :: "int \<Rightarrow> int \<times> string"

subsection \<open>Memory access (Process.task, Process.peek, Process.peek_str)\<close>

definition task :: "remote \<Rightarrow> int \<Rightarrow> error + int" where
  "task r pid =
     (case task_for_pid r pid of
        (ret, p_task) \<Rightarrow> if ret \<noteq> 0 then Inl BadReturnValueError else Inr p_task)"

text \<open>
  \<^verbatim>\<open>peek(address, size)\<close>. Evaluating \<^verbatim>\<open>self.task\<close> for the call may raise; the
  status \<^verbatim>\<open>vm_read\<close> returns is tested; the length the target stores at
  \<^verbatim>\<open>p_size\<close> is not read by the code. A size is a natural number: \<^verbatim>\<open>peek_str\<close>
  starts at 256 and only halves it.
\<close>

definition peek :: "remote \<Rightarrow> int \<Rightarrow> int \<Rightarrow> nat \<Rightarrow> error + bytes" where
  "peek r pid address sz =
     (case task r pid of
        Inl e \<Rightarrow> Inl e
      | Inr t \<Rightarrow>
          (let reply = vm_read r t address sz in
           if kr reply \<noteq> 0 then Inl BadReturnValueError
           else Inr (symbol_peek r (p_buf reply) sz)))"

definition PEEK_STR_CHUNK_SIZE :: nat where
  "PEEK_STR_CHUNK_SIZE = 0x100"

text \<open>
  The \<^verbatim>\<open>while size:\<close> loop of \<^verbatim>\<open>peek_str\<close>, on the loop variables
  \<^verbatim>\<open>address\<close>, \<^verbatim>\<open>size\<close> and \<^verbatim>\<open>buf\<close>. The loop may run forever (a target
  whose every read succeeds and never holds a NUL), so the result is an option: \<open>None\<close>
  is not returning. Inside, \<open>Inr None\<close> is Python's \<^verbatim>\<open>None\<close>, returned when the
  loop ends. \<open>decode\<close> is \<^verbatim>\<open>bytes.decode()\<close>, \<open>None\<close> where it raises.
\<close>

partial_function (option) peek_str_loop ::
  "(bytes \<Rightarrow> string option) \<Rightarrow> remote \<Rightarrow> int \<Rightarrow> int \<Rightarrow> nat \<Rightarrow> bytes
     \<Rightarrow> (error + string option) option" where
  "peek_str_loop decode r pid address sz buffer =
     (if sz = 0 then Some (Inr None)
      else (case peek r pid address sz of
              Inr chunk \<Rightarrow>
                (let buffer' = buffer @ chunk in
                 if 0 \<in> set buffer'
                 then Some (case decode (takeWhile (\<lambda>b. b \<noteq> 0) buffer') of
                              None \<Rightarrow> Inl UnicodeDecodeError
                            | Some s \<Rightarrow> Inr (Some s))
                 else peek_str_loop decode r pid (address + int sz) sz buffer')
            | Inl e \<Rightarrow>
                if e = BadReturnValueError
                then peek_str_loop decode r pid address (sz div 2) buffer
                else Some (Inl e)))"

definition peek_str ::
  "(bytes \<Rightarrow> string option) \<Rightarrow> remote \<Rightarrow> int \<Rightarrow> int \<Rightarrow> (error + string option) option" where
  "peek_str decode r pid address =
     peek_str_loop decode r pid address PEEK_STR_CHUNK_SIZE []"

subsection \<open>File descriptors (Process.fd_structs, Process.fds)\<close>

text \<open>
  \<^verbatim>\<open>FdStruct = namedtuple('FdStruct', 'fd struct')\<close>: the list entry and the detail
  structure parsed for it, which is of the kind the entry's type selected.
\<close>

datatype parsed_struct =
    Vnode_fdinfowithpath string
  | Socket_fdinfo socket_info
  | Pipe_info

type_synonym FdStruct = "proc_fdinfo \<times> parsed_struct"

text \<open>
  The dataclasses \<^verbatim>\<open>PipeFd\<close>, \<^verbatim>\<open>FileFd\<close>, \<^verbatim>\<open>UnixFd\<close> and the four
  socket classes, whose fields after \<^verbatim>\<open>fd\<close> are \<^verbatim>\<open>local_address\<close>,
  \<^verbatim>\<open>local_port\<close>, \<^verbatim>\<open>remote_address\<close> and \<^verbatim>\<open>remote_port\<close>.
\<close>

datatype Fd =
    PipeFd int
  | FileFd int string
  | UnixFd int string
  | Ipv4TcpFd int string int string int
  | Ipv6TcpFd int string int string int
  | Ipv4UdpFd int string int string int
  | Ipv6UdpFd int string int string int

text \<open>The dictionary \<^verbatim>\<open>SOCKET_TYPE_DATACLASS\<close>, family first, then kind.\<close>

definition SOCKET_TYPE_DATACLASS ::
  "so_family_t \<rightharpoonup> (so_kind_t \<rightharpoonup> (int \<Rightarrow> string \<Rightarrow> int \<Rightarrow> string \<Rightarrow> int \<Rightarrow> Fd))" where
  "SOCKET_TYPE_DATACLASS =
     [ AF_INET \<mapsto> [SOCKINFO_TCP \<mapsto> Ipv4TcpFd, SOCKINFO_IN \<mapsto> Ipv4UdpFd],
       AF_INET6 \<mapsto> [SOCKINFO_TCP \<mapsto> Ipv6TcpFd, SOCKINFO_IN \<mapsto> Ipv6UdpFd] ]"

text \<open>
  One pass of the \<^verbatim>\<open>for fd in Array(...)\<close> loop of \<^verbatim>\<open>fd_structs\<close>: \<open>Inl\<close> is
  the \<^verbatim>\<open>raise\<close>, \<open>Inr None\<close> is \<^verbatim>\<open>continue\<close> or no branch taken, and
  \<open>Inr (Some s)\<close> is \<^verbatim>\<open>result.append(s)\<close>.
\<close>

definition fd_struct_of :: "remote \<Rightarrow> int \<Rightarrow> proc_fdinfo \<Rightarrow> error + FdStruct option" where
  "fd_struct_of r pid fd =
     (if proc_fdtype fd = PROX_FDTYPE_VNODE then
        (let reply = proc_pidfdinfo r pid (proc_fd fd) PROC_PIDFDVNODEPATHINFO in
         if vs reply = 0 then
           (if errno reply = EBADF then Inr None else Inl BadReturnValueError)
         else Inr (Some (fd, Vnode_fdinfowithpath (pvip_vip_path (buf reply)))))
      else if proc_fdtype fd = PROX_FDTYPE_SOCKET then
        (let reply = proc_pidfdinfo r pid (proc_fd fd) PROC_PIDFDSOCKETINFO in
         if vs reply = 0 then
           (if errno reply = EBADF then Inr None else Inl BadReturnValueError)
         else Inr (Some (fd, Socket_fdinfo (psi (buf reply)))))
      else if proc_fdtype fd = PROX_FDTYPE_PIPE then
        (let reply = proc_pidfdinfo r pid (proc_fd fd) PROC_PIDFDPIPEINFO in
         if vs reply = 0 then
           (if errno reply = EBADF then Inr None else Inl BadReturnValueError)
         else Inr (Some (fd, Pipe_info)))
      else Inr None)"

fun fd_structs_loop ::
  "remote \<Rightarrow> int \<Rightarrow> proc_fdinfo list \<Rightarrow> FdStruct list \<Rightarrow> error + FdStruct list" where
  "fd_structs_loop r pid [] result = Inr result"
| "fd_structs_loop r pid (fd # rest) result =
     (case fd_struct_of r pid fd of
        Inl e \<Rightarrow> Inl e
      | Inr None \<Rightarrow> fd_structs_loop r pid rest result
      | Inr (Some s) \<Rightarrow> fd_structs_loop r pid rest (result @ [s]))"

text \<open>
  \<^verbatim>\<open>fd_structs\<close>: the first query, with the null buffer, gives the size of the
  buffer for the second; the size the second returns is the one used.
\<close>

definition fd_structs :: "remote \<Rightarrow> int \<Rightarrow> error + FdStruct list" where
  "fd_structs r pid =
     (let size0 = fst (proc_pidinfo_listfds r pid 0);
          (size1, fdinfo_buf) = proc_pidinfo_listfds r pid size0 in
      if size1 = 0 then Inl BadReturnValueError
      else fd_structs_loop r pid fdinfo_buf [])"

text \<open>
  One pass of the loop of \<^verbatim>\<open>fds\<close>. Reading \<^verbatim>\<open>parsed.pvip\<close> or
  \<^verbatim>\<open>parsed.psi\<close> from a structure of another kind would be an
  \<^verbatim>\<open>AttributeError\<close>; a family missing from the dictionary is a \<^verbatim>\<open>KeyError\<close>.
\<close>

definition fd_of :: "FdStruct \<Rightarrow> error + Fd option" where
  "fd_of fdstruct =
     (let fd = fst fdstruct; parsed = snd fdstruct in
      if proc_fdtype fd = PROX_FDTYPE_VNODE then
        (case parsed of
           Vnode_fdinfowithpath path \<Rightarrow> Inr (Some (FileFd (proc_fd fd) path))
         | _ \<Rightarrow> Inl AttributeError)
      else if proc_fdtype fd = PROX_FDTYPE_PIPE then Inr (Some (PipeFd (proc_fd fd)))
      else if proc_fdtype fd = PROX_FDTYPE_SOCKET then
        (case parsed of
           Socket_fdinfo s \<Rightarrow>
             if soi_kind s = SOCKINFO_TCP \<or> soi_kind s = SOCKINFO_IN then
               (case SOCKET_TYPE_DATACLASS (soi_family s) of
                  None \<Rightarrow> Inl KeyError
                | Some by_kind \<Rightarrow>
                    (case by_kind (soi_kind s) of
                       None \<Rightarrow> Inl KeyError
                     | Some correct_class \<Rightarrow>
                         (let info = (if soi_kind s = SOCKINFO_TCP then pri_tcp_tcpsi_ini s
                                      else pri_in s) in
                          Inr (Some (correct_class (proc_fd fd) (insi_laddr info)
                                       (insi_lport info) (insi_faddr info) (insi_fport info))))))
             else if soi_kind s = SOCKINFO_UN then
               Inr (Some (UnixFd (proc_fd fd) (pri_un_sun_path s)))
             else Inr None
         | _ \<Rightarrow> Inl AttributeError)
      else Inr None)"

fun fds_loop :: "FdStruct list \<Rightarrow> Fd list \<Rightarrow> error + Fd list" where
  "fds_loop [] result = Inr result"
| "fds_loop (fdstruct # rest) result =
     (case fd_of fdstruct of
        Inl e \<Rightarrow> Inl e
      | Inr None \<Rightarrow> fds_loop rest result
      | Inr (Some f) \<Rightarrow> fds_loop rest (result @ [f]))"

definition fds :: "remote \<Rightarrow> int \<Rightarrow> error + Fd list" where
  "fds r pid =
     (case fd_structs r pid of
        Inl e \<Rightarrow> Inl e
      | Inr structs \<Rightarrow> fds_loop structs [])"

subsection \<open>Process directory (DarwinProcesses)\<close>




text \<open>The attributes \<^verbatim>\<open>path\<close>, \<^verbatim>\<open>basename\<close> and \<^verbatim>\<open>name\<close>. The argument
  \<open>parts\<close> is \<^verbatim>\<open>pathlib.Path(path).parts\<close>.\<close>

definition path :: "remote \<Rightarrow> int \<Rightarrow> string option" where
  "path r pid =
     (case proc_pidpath r pid of
        (path_len, p) \<Rightarrow> if path_len = 0 then None else Some p)"











subsection \<open>Bulk scans (get\_process\_by\_listening\_port, lsof, fuser)\<close>










subsection \<open>Value bridge (DarwinClient.cf)\<close>




declare peek_str_loop.simps [code]

subsection \<open>The claims' vocabulary for descriptor enumeration\<close>

text \<open>
  The detail query \<^verbatim>\<open>fd_structs\<close> issues for a list entry, if any: the flavor follows
  the entry's type, and an entry of another type is not queried.
\<close>

definition detail_reply :: "remote \<Rightarrow> int \<Rightarrow> proc_fdinfo \<Rightarrow> fdinfo_reply option" where
  "detail_reply r pid fd =
     (case proc_fdtype fd of
        PROX_FDTYPE_VNODE \<Rightarrow> Some (proc_pidfdinfo r pid (proc_fd fd) PROC_PIDFDVNODEPATHINFO)
      | PROX_FDTYPE_SOCKET \<Rightarrow> Some (proc_pidfdinfo r pid (proc_fd fd) PROC_PIDFDSOCKETINFO)
      | PROX_FDTYPE_PIPE \<Rightarrow> Some (proc_pidfdinfo r pid (proc_fd fd) PROC_PIDFDPIPEINFO)
      | PROX_FDTYPE_OTHER n \<Rightarrow> None)"

text \<open>The detail query failed with \<^verbatim>\<open>EBADF\<close>, or failed with another errno.\<close>

definition bad_descriptor :: "remote \<Rightarrow> int \<Rightarrow> proc_fdinfo \<Rightarrow> bool" where
  "bad_descriptor r pid fd =
     (case detail_reply r pid fd of
        None \<Rightarrow> False
      | Some reply \<Rightarrow> vs reply = 0 \<and> errno reply = EBADF)"

definition other_failure :: "remote \<Rightarrow> int \<Rightarrow> proc_fdinfo \<Rightarrow> bool" where
  "other_failure r pid fd =
     (case detail_reply r pid fd of
        None \<Rightarrow> False
      | Some reply \<Rightarrow> vs reply = 0 \<and> errno reply \<noteq> EBADF)"

text \<open>The entry paired with the structure parsed from the buffer of its query.\<close>

definition parsed_detail :: "remote \<Rightarrow> int \<Rightarrow> proc_fdinfo \<Rightarrow> FdStruct option" where
  "parsed_detail r pid fd =
     (case detail_reply r pid fd of
        None \<Rightarrow> None
      | Some reply \<Rightarrow>
          Some (fd, case proc_fdtype fd of
                      PROX_FDTYPE_VNODE \<Rightarrow> Vnode_fdinfowithpath (pvip_vip_path (buf reply))
                    | PROX_FDTYPE_SOCKET \<Rightarrow> Socket_fdinfo (psi (buf reply))
                    | _ \<Rightarrow> Pipe_info))"

text \<open>
  An entry the code has no class for: a type other than vnode, socket and pipe, or a
  socket whose detail query succeeded with a kind other than TCP, IN and UN.
\<close>

definition unclassified :: "remote \<Rightarrow> int \<Rightarrow> proc_fdinfo \<Rightarrow> bool" where
  "unclassified r pid fd =
     (case proc_fdtype fd of
        PROX_FDTYPE_OTHER n \<Rightarrow> True
      | PROX_FDTYPE_SOCKET \<Rightarrow>
          (let reply = proc_pidfdinfo r pid (proc_fd fd) PROC_PIDFDSOCKETINFO in
           vs reply \<noteq> 0 \<and>
           (case soi_kind (psi (buf reply)) of SOCKINFO_OTHER k \<Rightarrow> True | _ \<Rightarrow> False))
      | _ \<Rightarrow> False)"

text \<open>What \<^verbatim>\<open>fds\<close> computes from the entries of the descriptor list.\<close>

definition fds_of_entries :: "remote \<Rightarrow> int \<Rightarrow> proc_fdinfo list \<Rightarrow> error + Fd list" where
  "fds_of_entries r pid entries =
     (case fd_structs_loop r pid entries [] of
        Inl e \<Rightarrow> Inl e
      | Inr structs \<Rightarrow> fds_loop structs [])"

subsection \<open>The claims' vocabulary for the bulk scans\<close>


subsection \<open>An example target\<close>

text \<open>
  Three bytes of readable memory at \<open>0x1000\<close> holding \<^verbatim>\<open>hi\<close> and a NUL; three
  processes, of which pid 1 has six descriptors (one stale, two without a class),
  pid 20 refuses the descriptor query and pid 300 has two; pid 4000, not listed, has a
  descriptor whose detail query fails with errno 13.
\<close>

definition example_memory :: "int \<Rightarrow> 8 word" where
  "example_memory a = (if a = 0x1000 then 0x68 else if a = 0x1001 then 0x69 else 0)"

definition no_sockinfo :: in_sockinfo where
  "no_sockinfo = \<lparr>insi_laddr = [], insi_lport = 0, insi_faddr = [], insi_fport = 0\<rparr>"

definition no_socket :: socket_info where
  "no_socket = \<lparr>soi_kind = SOCKINFO_OTHER 0, soi_family = AF_OTHER 0,
     pri_tcp_tcpsi_ini = no_sockinfo, pri_in = no_sockinfo, pri_un_sun_path = []\<rparr>"

definition failed_reply :: "int \<Rightarrow> fdinfo_reply" where
  "failed_reply e = \<lparr>vs = 0, errno = e, buf = \<lparr>pvip_vip_path = [], psi = no_socket\<rparr>\<rparr>"

definition vnode_reply :: "string \<Rightarrow> fdinfo_reply" where
  "vnode_reply p = \<lparr>vs = 1, errno = 0, buf = \<lparr>pvip_vip_path = p, psi = no_socket\<rparr>\<rparr>"

definition socket_reply :: "socket_info \<Rightarrow> fdinfo_reply" where
  "socket_reply s = \<lparr>vs = 1, errno = 0, buf = \<lparr>pvip_vip_path = [], psi = s\<rparr>\<rparr>"

definition example_fdinfo :: "int \<Rightarrow> int \<Rightarrow> flavor \<Rightarrow> fdinfo_reply" where
  "example_fdinfo pid fd flavor =
     (if pid = 1 then
        (if fd = 0 then vnode_reply ''/dev/null''
         else if fd = 1 then vnode_reply []
         else if fd = 2 then failed_reply EBADF
         else if fd = 3 then
           socket_reply (no_socket\<lparr>soi_kind := SOCKINFO_TCP, soi_family := AF_INET,
             pri_tcp_tcpsi_ini := \<lparr>insi_laddr = ''0.0.0.0'', insi_lport = 8080,
                                    insi_faddr = ''0.0.0.0'', insi_fport = 0\<rparr>\<rparr>)
         else socket_reply (no_socket\<lparr>soi_kind := SOCKINFO_OTHER 6\<rparr>))
      else if pid = 300 then
        (if fd = 0 then vnode_reply ''/tmp/log''
         else socket_reply (no_socket\<lparr>soi_kind := SOCKINFO_UN, pri_un_sun_path := ''/var/run/s''\<rparr>))
      else failed_reply 13)"

definition example_target :: remote where
  "example_target =
     \<lparr> task_for_pid = (\<lambda>pid. (if pid = 1 then 0 else 5, 0x103)),
       vm_read = (\<lambda>t a n.
         \<lparr>kr = (if 0x1000 \<le> a \<and> a + int n \<le> 0x1003 then 0 else 1),
          p_buf = a, p_size = int n\<rparr>),
       symbol_peek = (\<lambda>p n. map (\<lambda>i. example_memory (p + int i)) [0..<n]),
       proc_listallpids = (\<lambda>sz. (3, \<lambda>i. if i = 0 then 1 else if i = 1 then 20 else 300)),
       pid_t_sizeof = 4,
       proc_pidinfo_listfds = (\<lambda>pid sz.
         if pid = 1 then
           (48, [\<lparr>proc_fd = 0, proc_fdtype = PROX_FDTYPE_VNODE\<rparr>,
                 \<lparr>proc_fd = 1, proc_fdtype = PROX_FDTYPE_PIPE\<rparr>,
                 \<lparr>proc_fd = 2, proc_fdtype = PROX_FDTYPE_VNODE\<rparr>,
                 \<lparr>proc_fd = 3, proc_fdtype = PROX_FDTYPE_SOCKET\<rparr>,
                 \<lparr>proc_fd = 4, proc_fdtype = PROX_FDTYPE_OTHER 5\<rparr>,
                 \<lparr>proc_fd = 5, proc_fdtype = PROX_FDTYPE_SOCKET\<rparr>])
         else if pid = 300 then
           (16, [\<lparr>proc_fd = 0, proc_fdtype = PROX_FDTYPE_VNODE\<rparr>,
                 \<lparr>proc_fd = 1, proc_fdtype = PROX_FDTYPE_SOCKET\<rparr>])
         else if pid = 4000 then
           (16, [\<lparr>proc_fd = 0, proc_fdtype = PROX_FDTYPE_PIPE\<rparr>,
                 \<lparr>proc_fd = 1, proc_fdtype = PROX_FDTYPE_VNODE\<rparr>])
         else (0, [])),
       proc_pidfdinfo = example_fdinfo,
       proc_pidpath = (\<lambda>pid.
         if pid = 1 then (13, ''/sbin/launchd'') else if pid = 300 then (8, ''/bin/zsh'')
         else (0, [])),
       proc_pidinfo_taskallinfo = (\<lambda>pid.
         if pid = 1 then (1, ''launchd'') else if pid = 300 then (1, ''zsh'') else (0, [])) \<rparr>"

definition ascii_decode :: "bytes \<Rightarrow> string option" where
  "ascii_decode bs = (if \<forall>b \<in> set bs. b < 0x80 then Some (map (\<lambda>b. char_of (unat b)) bs) else None)"

text \<open>The same target, but \<^verbatim>\<open>vm_read\<close> always succeeds and reports two bytes.\<close>

definition short_count_target :: remote where
  "short_count_target =
     example_target\<lparr>vm_read := (\<lambda>t a n. \<lparr>kr = 0, p_buf = a, p_size = 2\<rparr>)\<rparr>"






section \<open>Theorems\<close>

subsection \<open>Classifier\<close>

lemma and_exp_eq_exp_iff_bit: "(x::int) AND 2 ^ n = 2 ^ n \<longleftrightarrow> bit x n"
proof
  assume "x AND 2 ^ n = 2 ^ n"
  then have "x AND 2 ^ n \<noteq> 0" by simp
  then show "bit x n" by (simp only: and_exp_eq_0_iff_not_bit not_not)
next
  assume "bit x n"
  then show "x AND 2 ^ n = 2 ^ n"
    by (intro bit_eqI) (auto simp add: bit_and_iff bit_exp_iff)
qed

lemma tagged_iff_bit63: "x AND OBJC_TAG_MASK = OBJC_TAG_MASK \<longleftrightarrow> bit x 63"
  unfolding OBJC_TAG_MASK_def push_bit_of_1 by (rule and_exp_eq_exp_iff_bit)

lemma isa_magic_loop_ISA_MAGICS:
  "isa_magic_loop ISA_MAGICS x \<longleftrightarrow>
     x AND 0x000003f000000001 = 0x000001a000000001 \<or>
     x AND 0x001f800000000001 = 0x001d800000000001"
  by (simp add: ISA_MAGICS_def)

text \<open>
  Claim C2. For every address and every behaviour of the 8-byte read: an address with
  bit 63 set is an object; otherwise an address that itself matches one of the two
  isa-magic (mask, value) pairs is not an object; otherwise a failed read gives not an
  object; otherwise the address is an object exactly when the value read matches one of
  the pairs. The tests are nested in this order, so an earlier test that decides hides
  the later ones (a tagged address is an object whatever the read would give).
\<close>

theorem is_objc_type_decision_order:
  "is_objc_type deref symbol =
     (if bit symbol 63 then True
      else if symbol AND 0x000003f000000001 = 0x000001a000000001 \<or>
              symbol AND 0x001f800000000001 = 0x001d800000000001 then False
      else (case deref symbol of
              None \<Rightarrow> False
            | Some isa \<Rightarrow>
                isa AND 0x000003f000000001 = 0x000001a000000001 \<or>
                isa AND 0x001f800000000001 = 0x001d800000000001))"
  unfolding is_objc_type_def tagged_iff_bit63 isa_magic_loop_ISA_MAGICS
  by (simp split: option.split)

text \<open>
  A tagged address; a class pointer, although reading it gives an isa; an address that
  cannot be read; an address whose isa matches; an address whose isa does not.
\<close>

theorem is_objc_type_decision_order_witness:
  "is_objc_type (\<lambda>a. None) 0x8000000000000001 \<and>
   \<not> is_objc_type (\<lambda>a. Some 0x000001a000000001) 0x000001a000000001 \<and>
   \<not> is_objc_type (\<lambda>a. None) 0x1000 \<and>
   is_objc_type (\<lambda>a. Some 0x001d800000000001) 0x1000 \<and>
   \<not> is_objc_type (\<lambda>a. Some 0x1008) 0x1000"
proof -
  have b1: "bit (0x8000000000000001::int) 63"
    by (simp add: bit_iff_odd)
  have b2: "\<not> bit (0x000001a000000001::int) 63"
    by (simp add: bit_iff_odd)
  have b3: "\<not> bit (0x1000::int) 63"
    by (simp add: bit_iff_odd)
  show ?thesis
    using is_objc_type_decision_order[of "\<lambda>a. None" "0x8000000000000001"]
      is_objc_type_decision_order[of "\<lambda>a. Some 0x000001a000000001" "0x000001a000000001"]
      is_objc_type_decision_order[of "\<lambda>a. None" "0x1000"]
      is_objc_type_decision_order[of "\<lambda>a. Some 0x001d800000000001" "0x1000"]
      is_objc_type_decision_order[of "\<lambda>a. Some 0x1008" "0x1000"]
    by (simp add: b1 b2 b3)
qed

subsection \<open>Memory access\<close>

lemma peek_error_is_BadReturnValueError:
  "peek r pid address sz = Inl e \<Longrightarrow> e = BadReturnValueError"
  by (auto simp: peek_def task_def Let_def split: prod.splits if_splits sum.splits)

lemma map_upt_append_shift:
  "map f [0..<off] @ map (\<lambda>i. f (off + i)) [0..<n] = map f [0..<off + n]"
proof -
  have "map (\<lambda>i. f (off + i)) [0..<n] = map f [off..<off + n]"
    by (simp add: map_add_upt[symmetric] add.commute)
  then show ?thesis
    by (simp add: upt_add_eq_append[of 0 off n, simplified])
qed

lemma first_zero_in_map_upt:
  assumes "g k = (0::8 word)" and "\<And>i. i < k \<Longrightarrow> g i \<noteq> 0"
  shows "0 \<in> set (map g [0..<m]) \<longleftrightarrow> k < m"
proof
  assume "0 \<in> set (map g [0..<m])"
  then obtain i where i: "i < m" "g i = 0" by auto
  with assms(2) have "\<not> i < k" by auto
  with i show "k < m" by simp
next
  assume "k < m"
  with assms(1) show "0 \<in> set (map g [0..<m])" by (auto simp: image_iff intro!: bexI[of _ k])
qed

lemma takeWhile_first_zero:
  assumes "g k = (0::8 word)" and "\<And>i. i < k \<Longrightarrow> g i \<noteq> 0" and "k < m"
  shows "takeWhile (\<lambda>b. b \<noteq> 0) (map g [0..<m]) = map g [0..<k]"
proof -
  have "[0..<m] = [0..<k] @ k # [Suc k..<m]"
    using assms(3) by (metis less_imp_add_positive upt_add_eq_append upt_conv_Cons zero_le add_0 le_add1 less_add_same_cancel1)
  then have "takeWhile (\<lambda>b. b \<noteq> 0) (map g [0..<m]) =
      takeWhile (\<lambda>b. b \<noteq> 0) (map g [0..<k] @ g k # map g [Suc k..<m])"
    by simp
  also have "\<dots> = map g [0..<k] @ takeWhile (\<lambda>b. b \<noteq> 0) (g k # map g [Suc k..<m])"
    using assms(2) by (intro takeWhile_append2) auto
  also have "\<dots> = map g [0..<k]"
    using assms(1) by simp
  finally show ?thesis .
qed

lemma peek_str_loop_reaches_nul:
  assumes content: "\<And>addr n chunk. peek r pid addr n = Inr chunk \<Longrightarrow>
                      chunk = map (\<lambda>i. mem (addr + int i)) [0..<n]"
      and readable: "\<And>i. i \<le> k \<Longrightarrow> \<exists>chunk. peek r pid (address + int i) 1 = Inr chunk"
      and nul: "mem (address + int k) = 0"
      and before: "\<And>i. i < k \<Longrightarrow> mem (address + int i) \<noteq> 0"
      and off: "off \<le> k" and sz: "0 < sz"
  shows "peek_str_loop decode r pid (address + int off) sz (map (\<lambda>i. mem (address + int i)) [0..<off]) =
           Some (case decode (map (\<lambda>i. mem (address + int i)) [0..<k]) of
                   None \<Rightarrow> Inl UnicodeDecodeError
                 | Some s \<Rightarrow> Inr (Some s))"
  using off sz
proof (induction "k - off" arbitrary: off sz rule: less_induct)
  case outer: less
  show ?case using outer.prems(2)
  proof (induction sz rule: less_induct)
    case (less sz)
    let ?g = "\<lambda>i. mem (address + int i)"
    show ?case
    proof (cases "peek r pid (address + int off) sz")
      case (Inl e)
      then have e: "e = BadReturnValueError"
        by (rule peek_error_is_BadReturnValueError)
      have "sz \<noteq> 1"
        using readable[OF outer.prems(1)] Inl by auto
      with less.prems have half: "0 < sz div 2" "sz div 2 < sz" by auto
      have "peek_str_loop decode r pid (address + int off) sz (map ?g [0..<off]) =
              peek_str_loop decode r pid (address + int off) (sz div 2) (map ?g [0..<off])"
        using less.prems Inl e by (subst peek_str_loop.simps) simp
      with less.IH[OF half(2) half(1)] show ?thesis by simp
    next
      case (Inr chunk)
      have chunk: "chunk = map (\<lambda>i. ?g (off + i)) [0..<sz]"
        using content[OF Inr] by (simp add: add.assoc)
      have buffer': "map ?g [0..<off] @ chunk = map ?g [0..<off + sz]"
        unfolding chunk by (rule map_upt_append_shift)
      have zero: "0 \<in> set (map ?g [0..<off + sz]) \<longleftrightarrow> k < off + sz"
        using nul before by (rule first_zero_in_map_upt)
      show ?thesis
      proof (cases "k < off + sz")
        case True
        have "takeWhile (\<lambda>b. b \<noteq> 0) (map ?g [0..<off + sz]) = map ?g [0..<k]"
          using nul before True by (rule takeWhile_first_zero)
        with True zero less.prems Inr buffer' show ?thesis
          by (subst peek_str_loop.simps) (simp add: Let_def)
      next
        case False
        then have le: "off + sz \<le> k" by simp
        have smaller: "k - (off + sz) < k - off"
          using le less.prems by linarith
        have "peek_str_loop decode r pid (address + int off) sz (map ?g [0..<off]) =
                peek_str_loop decode r pid (address + int (off + sz)) sz (map ?g [0..<off + sz])"
          using False zero less.prems Inr buffer'
          by (subst peek_str_loop.simps) (simp add: Let_def add.assoc)
        with outer.hyps[OF smaller le less.prems] show ?thesis by simp
      qed
    qed
  qed
qed

lemma ex_peek: "peek example_target 1 a n =
   (if 0x1000 \<le> a \<and> a + int n \<le> 0x1003 then Inr (map (\<lambda>i. example_memory (a + int i)) [0..<n]) else Inl BadReturnValueError)"
  by (simp add: peek_def task_def example_target_def)

text \<open>
  Claim C3. Let the bytes at \<open>address\<close>, \<open>address + 1\<close>, ... be \<open>mem\<close>, with the
  first NUL at offset \<open>k\<close>; let every successful read return the bytes of \<open>mem\<close> it
  asked for, and let each single byte up to the NUL be readable. Then
  \<^verbatim>\<open>peek_str\<close>, starting with chunks of 256 bytes, returns the decoded \<open>k\<close> bytes
  before the NUL, however many of the larger reads fail on the way: a failed read
  halves the chunk and is retried at the same address, a successful one is appended.
\<close>

theorem peek_str_returns_prefix:
  assumes content: "\<And>addr n chunk. peek r pid addr n = Inr chunk \<Longrightarrow>
                      chunk = map (\<lambda>i. mem (addr + int i)) [0..<n]"
      and readable: "\<And>i. i \<le> k \<Longrightarrow> \<exists>chunk. peek r pid (address + int i) 1 = Inr chunk"
      and nul: "mem (address + int k) = 0"
      and before: "\<And>i. i < k \<Longrightarrow> mem (address + int i) \<noteq> 0"
  shows "peek_str decode r pid address =
           Some (case decode (map (\<lambda>i. mem (address + int i)) [0..<k]) of
                   None \<Rightarrow> Inl UnicodeDecodeError
                 | Some s \<Rightarrow> Inr (Some s))"
  using peek_str_loop_reaches_nul[OF content readable nul before, of 0 PEEK_STR_CHUNK_SIZE decode]
  by (simp add: peek_str_def PEEK_STR_CHUNK_SIZE_def)

text \<open>
  On the example target the reads of 256, 128, ..., 4 bytes at \<open>0x1000\<close> fail, the read
  of 2 bytes succeeds, the next read of 2 bytes fails and the read of 1 byte finds the NUL.
\<close>

theorem peek_str_returns_prefix_witness:
  "peek_str ascii_decode example_target 1 0x1000 = Some (Inr (Some ''hi''))"
proof -
  have content: "\<And>addr n chunk. peek example_target 1 addr n = Inr chunk \<Longrightarrow>
      chunk = map (\<lambda>i. example_memory (addr + int i)) [0..<n]"
    by (simp add: ex_peek split: if_splits)
  have readable: "\<And>i. i \<le> 2 \<Longrightarrow> \<exists>chunk. peek example_target 1 (0x1000 + int i) 1 = Inr chunk"
    by (simp add: ex_peek)
  have nul: "example_memory (0x1000 + int 2) = 0"
    by (simp add: example_memory_def)
  have before: "\<And>i. i < 2 \<Longrightarrow> example_memory (0x1000 + int i) \<noteq> 0"
    by (auto simp: example_memory_def)
  have "[0..<2] = [0, 1]" by (simp add: upt_rec)
  with peek_str_returns_prefix[of example_target 1 example_memory 2 "0x1000" ascii_decode,
      OF content readable nul before]
  show ?thesis
    by (simp add: example_memory_def ascii_decode_def char_of_def bit_Suc_0_iff)
qed

text \<open>
  Claim C5, as the code has it. \<^verbatim>\<open>peek\<close> succeeds exactly when
  \<^verbatim>\<open>task_for_pid\<close> and \<^verbatim>\<open>vm_read\<close> both return status 0, and then returns the
  bytes read at the pointer \<^verbatim>\<open>vm_read\<close> stored; every other outcome is
  \<^verbatim>\<open>BadReturnValueError\<close>. The length the target reports at \<^verbatim>\<open>p_size\<close> has
  no influence: replacing it by any other leaves the result unchanged.
\<close>

theorem peek_checks_status_only:
  "peek r pid address sz =
     (if fst (task_for_pid r pid) = 0 \<and>
         kr (vm_read r (snd (task_for_pid r pid)) address sz) = 0
      then Inr (symbol_peek r (p_buf (vm_read r (snd (task_for_pid r pid)) address sz)) sz)
      else Inl BadReturnValueError) \<and>
   peek (r\<lparr>vm_read := (\<lambda>t a n. (vm_read r t a n)\<lparr>p_size := reported t a n\<rparr>)\<rparr>) pid address sz =
     peek r pid address sz"
  by (simp add: peek_def task_def Let_def split: prod.splits)

text \<open>
  On the example target: a read inside the three readable bytes, a read across their
  end, and a read for a pid whose task port is refused.
\<close>

theorem peek_checks_status_only_witness:
  "peek example_target 1 0x1000 3 = Inr [0x68, 0x69, 0] \<and>
   peek example_target 1 0x1000 4 = Inl BadReturnValueError \<and>
   peek example_target 20 0x1000 3 = Inl BadReturnValueError"
  using peek_checks_status_only[of example_target 1 "0x1000" 3]
    peek_checks_status_only[of example_target 1 "0x1000" 4]
    peek_checks_status_only[of example_target 20 "0x1000" 3]
  by (simp add: example_target_def example_memory_def upt_rec)

text \<open>
  Claim C5 as stated fails: a request for 3 bytes succeeds although the target reports
  a length of 2.
\<close>

theorem peek_succeeds_with_other_reported_length:
  "peek short_count_target 1 0x1000 3 = Inr [0x68, 0x69, 0] \<and>
   p_size (vm_read short_count_target 0x103 0x1000 3) = 2"
  by (simp add: short_count_target_def example_target_def peek_def task_def example_memory_def
      upt_rec)






subsection \<open>Descriptor enumeration\<close>

lemma fd_struct_of_cases:
  "fd_struct_of r pid fd =
     (if other_failure r pid fd then Inl BadReturnValueError
      else if bad_descriptor r pid fd then Inr None
      else Inr (parsed_detail r pid fd))"
  by (cases "proc_fdtype fd")
     (simp_all add: fd_struct_of_def other_failure_def bad_descriptor_def parsed_detail_def
        detail_reply_def Let_def)

lemma fd_structs_loop_acc:
  "fd_structs_loop r pid entries acc =
     (case fd_structs_loop r pid entries [] of
        Inl e \<Rightarrow> Inl e
      | Inr structs \<Rightarrow> Inr (acc @ structs))"
proof (induction entries arbitrary: acc)
  case Nil
  show ?case by simp
next
  case (Cons fd rest)
  show ?case
  proof (cases "fd_struct_of r pid fd")
    case (Inl e)
    then show ?thesis by simp
  next
    case (Inr s)
    show ?thesis
    proof (cases s)
      case None
      with Inr Cons.IH[of acc] show ?thesis by simp
    next
      case (Some x)
      with Inr Cons.IH[of "acc @ [x]"] Cons.IH[of "[x]"] show ?thesis
        by (simp split: sum.splits)
    qed
  qed
qed

lemma fd_structs_loop_char:
  "fd_structs_loop r pid entries [] =
     (if \<exists>fd \<in> set entries. other_failure r pid fd then Inl BadReturnValueError
      else Inr (List.map_filter (parsed_detail r pid)
                  (filter (\<lambda>fd. \<not> bad_descriptor r pid fd) entries)))"
proof (induction entries)
  case Nil
  show ?case by (simp add: List.map_filter_simps)
next
  case (Cons fd rest)
  show ?case
  proof (cases "other_failure r pid fd")
    case True
    then show ?thesis by (simp add: fd_struct_of_cases)
  next
    case no_fail: False
    show ?thesis
    proof (cases "bad_descriptor r pid fd")
      case True
      with no_fail Cons.IH show ?thesis by (simp add: fd_struct_of_cases)
    next
      case False
      with no_fail Cons.IH show ?thesis
        by (cases "parsed_detail r pid fd")
           (simp_all add: fd_struct_of_cases List.map_filter_simps
              fd_structs_loop_acc[of r pid rest "[x]" for x])
    qed
  qed
qed

text \<open>
  Claim C4. \<^verbatim>\<open>fd_structs\<close> fails exactly when the list query returns 0 or the
  detail query of some entry fails with an errno other than \<^verbatim>\<open>EBADF\<close>; otherwise
  it returns, in order, every queried entry whose detail query did not fail with
  \<^verbatim>\<open>EBADF\<close>, so such an entry is left out and the entries after it are still
  processed. \<^verbatim>\<open>fds\<close> classifies that list.
\<close>

theorem fd_structs_skips_bad_descriptor_aborts_otherwise:
  "fd_structs r pid =
     (case proc_pidinfo_listfds r pid (fst (proc_pidinfo_listfds r pid 0)) of
        (size1, entries) \<Rightarrow>
          if size1 = 0 \<or> (\<exists>fd \<in> set entries. other_failure r pid fd)
          then Inl BadReturnValueError
          else Inr (List.map_filter (parsed_detail r pid)
                      (filter (\<lambda>fd. \<not> bad_descriptor r pid fd) entries))) \<and>
   fds r pid =
     (case proc_pidinfo_listfds r pid (fst (proc_pidinfo_listfds r pid 0)) of
        (size1, entries) \<Rightarrow>
          if size1 = 0 \<or> (\<exists>fd \<in> set entries. other_failure r pid fd)
          then Inl BadReturnValueError
          else fds_loop (List.map_filter (parsed_detail r pid)
                           (filter (\<lambda>fd. \<not> bad_descriptor r pid fd) entries)) [])"
proof -
  have structs: "fd_structs r pid =
     (case proc_pidinfo_listfds r pid (fst (proc_pidinfo_listfds r pid 0)) of
        (size1, entries) \<Rightarrow>
          if size1 = 0 \<or> (\<exists>fd \<in> set entries. other_failure r pid fd)
          then Inl BadReturnValueError
          else Inr (List.map_filter (parsed_detail r pid)
                      (filter (\<lambda>fd. \<not> bad_descriptor r pid fd) entries)))"
    by (simp add: fd_structs_def Let_def fd_structs_loop_char split: prod.split)
  then show ?thesis
    by (simp add: fds_def split: prod.split)
qed

lemma example_listfds:
  "proc_pidinfo_listfds example_target 1 sz =
     (48, [\<lparr>proc_fd = 0, proc_fdtype = PROX_FDTYPE_VNODE\<rparr>,
           \<lparr>proc_fd = 1, proc_fdtype = PROX_FDTYPE_PIPE\<rparr>,
           \<lparr>proc_fd = 2, proc_fdtype = PROX_FDTYPE_VNODE\<rparr>,
           \<lparr>proc_fd = 3, proc_fdtype = PROX_FDTYPE_SOCKET\<rparr>,
           \<lparr>proc_fd = 4, proc_fdtype = PROX_FDTYPE_OTHER 5\<rparr>,
           \<lparr>proc_fd = 5, proc_fdtype = PROX_FDTYPE_SOCKET\<rparr>])"
  "proc_pidinfo_listfds example_target 4000 sz =
     (16, [\<lparr>proc_fd = 0, proc_fdtype = PROX_FDTYPE_PIPE\<rparr>,
           \<lparr>proc_fd = 1, proc_fdtype = PROX_FDTYPE_VNODE\<rparr>])"
  by (simp_all add: example_target_def)

lemma example_pidfdinfo: "proc_pidfdinfo example_target = example_fdinfo"
  by (simp add: example_target_def)

text \<open>
  Pid 1 of the example target: descriptor 2 answers \<^verbatim>\<open>EBADF\<close> and is left out,
  the descriptors after it are kept. Pid 4000: the first detail query fails with errno
  13 and the call raises.
\<close>

theorem fd_structs_skips_bad_descriptor_aborts_otherwise_witness:
  "(\<exists>structs. fd_structs example_target 1 = Inr structs \<and>
      map (\<lambda>s. proc_fd (fst s)) structs = [0, 1, 3, 5]) \<and>
   bad_descriptor example_target 1 \<lparr>proc_fd = 2, proc_fdtype = PROX_FDTYPE_VNODE\<rparr> \<and>
   fd_structs example_target 4000 = Inl BadReturnValueError \<and>
   fds example_target 4000 = Inl BadReturnValueError \<and>
   other_failure example_target 4000 \<lparr>proc_fd = 0, proc_fdtype = PROX_FDTYPE_PIPE\<rparr>"
  using fd_structs_skips_bad_descriptor_aborts_otherwise[of example_target 1]
    fd_structs_skips_bad_descriptor_aborts_otherwise[of example_target 4000]
  by (simp add: example_listfds example_pidfdinfo example_fdinfo_def bad_descriptor_def
      other_failure_def parsed_detail_def detail_reply_def vnode_reply_def socket_reply_def
      failed_reply_def EBADF_def List.map_filter_simps)

lemma fds_loop_acc:
  "fds_loop structs acc =
     (case fds_loop structs [] of
        Inl e \<Rightarrow> Inl e
      | Inr fs \<Rightarrow> Inr (acc @ fs))"
proof (induction structs arbitrary: acc)
  case Nil
  show ?case by simp
next
  case (Cons s rest)
  show ?case
  proof (cases "fd_of s")
    case (Inl e)
    then show ?thesis by simp
  next
    case (Inr f)
    show ?thesis
    proof (cases f)
      case None
      with Inr Cons.IH[of acc] show ?thesis by simp
    next
      case (Some x)
      with Inr Cons.IH[of "acc @ [x]"] Cons.IH[of "[x]"] show ?thesis
        by (simp split: sum.splits)
    qed
  qed
qed

lemma fds_loop_Cons:
  "fds_loop (s # rest) [] =
     (case fd_of s of
        Inl e \<Rightarrow> Inl e
      | Inr None \<Rightarrow> fds_loop rest []
      | Inr (Some f) \<Rightarrow> (case fds_loop rest [] of Inl e \<Rightarrow> Inl e | Inr fs \<Rightarrow> Inr (f # fs)))"
  by (simp add: fds_loop_acc[of rest "[x]" for x] split: sum.splits option.splits)

lemma fds_loop_length:
  "fds_loop structs [] = Inr fs \<Longrightarrow> length fs \<le> length structs"
proof (induction structs arbitrary: fs)
  case Nil
  then show ?case by simp
next
  case (Cons s rest)
  from Cons.prems show ?case
    unfolding fds_loop_Cons
    by (auto split: sum.splits option.splits dest: Cons.IH)
qed

lemma unclassified_not_failed:
  "unclassified r pid fd \<Longrightarrow> \<not> other_failure r pid fd \<and> \<not> bad_descriptor r pid fd"
  by (cases "proc_fdtype fd")
     (simp_all add: unclassified_def other_failure_def bad_descriptor_def detail_reply_def Let_def)

lemma unclassified_fd_of:
  "unclassified r pid fd \<Longrightarrow> parsed_detail r pid fd = Some s \<Longrightarrow> fd_of s = Inr None"
  by (cases "proc_fdtype fd")
     (auto simp: unclassified_def parsed_detail_def detail_reply_def Let_def fd_of_def
        split: so_kind_t.splits)

lemma other_failure_filter_unclassified:
  "(\<exists>fd \<in> set (filter (\<lambda>fd. \<not> unclassified r pid fd) entries). other_failure r pid fd) \<longleftrightarrow>
   (\<exists>fd \<in> set entries. other_failure r pid fd)"
  using unclassified_not_failed by auto

lemma fds_loop_filter_unclassified:
  "fds_loop (List.map_filter (parsed_detail r pid)
      (filter (\<lambda>fd. \<not> unclassified r pid fd \<and> \<not> bad_descriptor r pid fd) entries)) [] =
   fds_loop (List.map_filter (parsed_detail r pid)
      (filter (\<lambda>fd. \<not> bad_descriptor r pid fd) entries)) []"
proof (induction entries)
  case Nil
  show ?case by simp
next
  case (Cons fd rest)
  show ?case
  proof (cases "unclassified r pid fd")
    case True
    then have nb: "\<not> bad_descriptor r pid fd"
      using unclassified_not_failed by blast
    show ?thesis
    proof (cases "parsed_detail r pid fd")
      case None
      with True nb Cons.IH show ?thesis by (simp add: List.map_filter_simps)
    next
      case (Some s)
      have "fd_of s = Inr None" using True Some by (rule unclassified_fd_of)
      with True nb Some Cons.IH show ?thesis
        by (simp add: List.map_filter_simps fds_loop_Cons del: fds_loop.simps)
    qed
  next
    case False
    with Cons.IH show ?thesis
      by (cases "parsed_detail r pid fd")
         (simp_all add: List.map_filter_simps fds_loop_Cons del: fds_loop.simps
            split: sum.splits option.splits)
  qed
qed

lemma fds_of_entries_filter_unclassified:
  "fds_of_entries r pid (filter (\<lambda>fd. \<not> unclassified r pid fd) entries) =
   fds_of_entries r pid entries"
  unfolding fds_of_entries_def fd_structs_loop_char other_failure_filter_unclassified
  by (simp add: fds_loop_filter_unclassified)

lemma fds_of_entries_length:
  assumes "fds_of_entries r pid entries = Inr fs"
  shows "length fs + length (filter (unclassified r pid) entries) \<le> length entries"
proof -
  let ?kept = "filter (\<lambda>fd. \<not> unclassified r pid fd) entries"
  from assms have "fds_of_entries r pid ?kept = Inr fs"
    by (simp add: fds_of_entries_filter_unclassified)
  then obtain structs where structs: "fd_structs_loop r pid ?kept [] = Inr structs"
    and fs: "fds_loop structs [] = Inr fs"
    by (auto simp: fds_of_entries_def split: sum.splits)
  from structs have "structs = List.map_filter (parsed_detail r pid)
      (filter (\<lambda>fd. \<not> bad_descriptor r pid fd) ?kept)"
    by (simp add: fd_structs_loop_char split: if_splits)
  then have "length structs \<le> length (filter (\<lambda>fd. \<not> bad_descriptor r pid fd) ?kept)"
    unfolding map_filter_def by (simp only: length_map length_filter_le)
  also have "\<dots> \<le> length ?kept"
    by (rule length_filter_le)
  finally have "length structs \<le> length ?kept" .
  with fds_loop_length[OF fs] have "length fs \<le> length ?kept" by simp
  moreover have "length ?kept + length (filter (unclassified r pid) entries) = length entries"
    using sum_length_filter_compl[of "unclassified r pid" entries] by simp
  ultimately show ?thesis by simp
qed

text \<open>
  Claim C10. \<^verbatim>\<open>fds\<close> gives the result it would give if the entries without a
  class were not in the descriptor list: they add no record and raise no error. Hence a
  returned list is shorter than the descriptor list by at least their number.
\<close>

theorem fds_drops_unclassified_descriptors:
  "fds r pid =
     (case proc_pidinfo_listfds r pid (fst (proc_pidinfo_listfds r pid 0)) of
        (size1, entries) \<Rightarrow>
          if size1 = 0 then Inl BadReturnValueError
          else fds_of_entries r pid (filter (\<lambda>fd. \<not> unclassified r pid fd) entries)) \<and>
   (\<forall>fs. fds r pid = Inr fs \<longrightarrow>
      length fs + length (filter (unclassified r pid)
                            (snd (proc_pidinfo_listfds r pid (fst (proc_pidinfo_listfds r pid 0)))))
        \<le> length (snd (proc_pidinfo_listfds r pid (fst (proc_pidinfo_listfds r pid 0)))))"
proof -
  obtain size1 entries where reply:
    "proc_pidinfo_listfds r pid (fst (proc_pidinfo_listfds r pid 0)) = (size1, entries)"
    by (cases "proc_pidinfo_listfds r pid (fst (proc_pidinfo_listfds r pid 0))")
  have fds_eq: "fds r pid = (if size1 = 0 then Inl BadReturnValueError else fds_of_entries r pid entries)"
    by (simp add: fds_def fd_structs_def fds_of_entries_def Let_def reply)
  have first: "fds r pid = (if size1 = 0 then Inl BadReturnValueError
      else fds_of_entries r pid (filter (\<lambda>fd. \<not> unclassified r pid fd) entries))"
    by (simp add: fds_eq fds_of_entries_filter_unclassified)
  have second: "length fs + length (filter (unclassified r pid) entries) \<le> length entries"
    if "fds r pid = Inr fs" for fs
    using that fds_eq by (auto split: if_splits intro: fds_of_entries_length)
  from first second show ?thesis by (simp add: reply)
qed

text \<open>
  Pid 1 of the example target has six descriptors; one is stale, the kqueue and the
  socket of another kind have no class, and three records are returned.
\<close>

theorem fds_drops_unclassified_descriptors_witness:
  "fds example_target 1 =
     Inr [FileFd 0 ''/dev/null'', PipeFd 1, Ipv4TcpFd 3 ''0.0.0.0'' 8080 ''0.0.0.0'' 0] \<and>
   length (snd (proc_pidinfo_listfds example_target 1
                  (fst (proc_pidinfo_listfds example_target 1 0)))) = 6 \<and>
   length (filter (unclassified example_target 1)
             (snd (proc_pidinfo_listfds example_target 1
                     (fst (proc_pidinfo_listfds example_target 1 0))))) = 2"
  using fds_drops_unclassified_descriptors[of example_target 1]
  by (simp add: example_target_def example_fdinfo_def unclassified_def fds_of_entries_def
      fd_struct_of_def fd_of_def SOCKET_TYPE_DATACLASS_def vnode_reply_def socket_reply_def
      failed_reply_def no_socket_def no_sockinfo_def EBADF_def Let_def)

subsection \<open>Process lookups\<close>

















subsection \<open>Bulk scans\<close>














subsection \<open>Value bridge\<close>



end
